theory Spec2Isabelle
  imports Complex_Main "HOL-Library.Word"
begin

unbundle bit_operations_syntax

section \<open>GemInfo: the metadata record of one gem (GemCatalog/GemInfo.h)\<close>

subsection \<open>Enumerations and flag sets\<close>

text \<open>
  The four enumerations of the header. \<open>NumPlatforms\<close>, \<open>NumTypes\<close> and
  \<open>NumGemOrigins\<close> are enumerators of the same C++ enums as the flags they count, so
  they are constructors here too.
\<close>

datatype Platform = Android | iOS | Linux | macOS | Windows | NumPlatforms

datatype Type = Asset | Code | Tool | NumTypes

datatype GemOrigin = Open3DEngine | Local | Remote | NumGemOrigins

datatype DownloadStatus =
  UnknownDownloadStatus | NotDownloaded | Downloading | DownloadSuccessful
  | DownloadFailed | Downloaded

text \<open>
  \<open>Q_DECLARE_FLAGS(Platforms, Platform)\<close>: a \<open>QFlags\<close> value stores the union of the
  enumerators' values in one C++ \<open>int\<close>, here a 32-bit word.
\<close>

type_synonym Platforms = "32 word"
type_synonym Types = "32 word"
type_synonym GemOrigins = "32 word"

text \<open>The integer value of each enumerator, \<open>1 << k\<close> written as \<open>push_bit k 1\<close>.\<close>

fun Platform_value :: "Platform \<Rightarrow> 32 word" where
  "Platform_value Android = push_bit 0 1"
| "Platform_value iOS = push_bit 1 1"
| "Platform_value Linux = push_bit 2 1"
| "Platform_value macOS = push_bit 3 1"
| "Platform_value Windows = push_bit 4 1"
| "Platform_value NumPlatforms = 5"

fun Type_value :: "Type \<Rightarrow> 32 word" where
  "Type_value Asset = push_bit 0 1"
| "Type_value Code = push_bit 1 1"
| "Type_value Tool = push_bit 2 1"
| "Type_value NumTypes = 3"

fun GemOrigin_value :: "GemOrigin \<Rightarrow> 32 word" where
  "GemOrigin_value Open3DEngine = push_bit 0 1"
| "GemOrigin_value Local = push_bit 1 1"
| "GemOrigin_value Remote = push_bit 2 1"
| "GemOrigin_value NumGemOrigins = 3"

fun DownloadStatus_value :: "DownloadStatus \<Rightarrow> int" where
  "DownloadStatus_value UnknownDownloadStatus = - 1"
| "DownloadStatus_value NotDownloaded = 0"
| "DownloadStatus_value Downloading = 1"
| "DownloadStatus_value DownloadSuccessful = 2"
| "DownloadStatus_value DownloadFailed = 3"
| "DownloadStatus_value Downloaded = 4"

text \<open>
  The position of the bit of a platform flag: the \<open>k\<close> of its \<open>1 << k\<close>.
  \<open>NumPlatforms\<close> (the value 5, two bits) is a count, not a flag, and has none.
\<close>

fun Platform_shift :: "Platform \<Rightarrow> nat option" where
  "Platform_shift Android = Some 0"
| "Platform_shift iOS = Some 1"
| "Platform_shift Linux = Some 2"
| "Platform_shift macOS = Some 3"
| "Platform_shift Windows = Some 4"
| "Platform_shift NumPlatforms = None"

text \<open>The five recognized platform flags, in the order of the enum.\<close>

definition platform_flags :: "Platform list" where
  "platform_flags = [Android, iOS, Linux, macOS, Windows]"

subsection \<open>The record\<close>

text \<open>A \<open>QPixmap\<close> is either null (as default-constructed) or holds image data.\<close>

datatype QPixmap = NullPixmap | PixmapData "8 word list"

record GemInfo =
  m_path :: string
  m_name :: string
  m_displayName :: string
  m_origin :: string
  m_gemOrigin :: GemOrigin
  m_originURL :: string
  m_iconPath :: string
  m_iconPreviewPath :: string
  m_iconPixMap :: QPixmap
  m_iconUri :: string
  m_iconUriPreviewPath :: string
  m_iconUriPixMap :: QPixmap
  m_isAdded :: bool
  m_isEngineGem :: bool
  m_isProjectGem :: bool
  m_summary :: string
  m_platforms :: Platforms
  m_types :: Types
  m_downloadStatus :: DownloadStatus
  m_features :: "string list"
  m_requirement :: string
  m_licenseText :: string
  m_licenseLink :: string
  m_directoryLink :: string
  m_documentationLink :: string
  m_repoUri :: string
  m_version :: string
  m_lastUpdatedDate :: string
  m_binarySizeInKB :: "32 word"
  m_dependencies :: "string list"
  m_compatibleEngines :: "string list"
  m_incompatibleEngineDependencies :: "string list"
  m_incompatibleGemDependencies :: "string list"
  m_downloadSourceUri :: string
  m_sourceControlUri :: string
  m_sourceControlRef :: string

text \<open>
  \<open>GemInfo() = default\<close>: every member takes its default member initializer where the
  header gives one; a \<open>QString\<close> or \<open>QStringList\<close> without one is empty, a \<open>QFlags\<close>
  without one has no bit set, a \<open>QPixmap\<close> without one is null.
\<close>

definition GemInfo_default :: GemInfo where
  "GemInfo_default = \<lparr>
     m_path = '''',
     m_name = ''Unknown Gem Name'',
     m_displayName = '''',
     m_origin = ''Unknown Creator'',
     m_gemOrigin = Local,
     m_originURL = '''',
     m_iconPath = '''',
     m_iconPreviewPath = '''',
     m_iconPixMap = NullPixmap,
     m_iconUri = '''',
     m_iconUriPreviewPath = '''',
     m_iconUriPixMap = NullPixmap,
     m_isAdded = False,
     m_isEngineGem = False,
     m_isProjectGem = False,
     m_summary = ''No summary provided.'',
     m_platforms = 0,
     m_types = 0,
     m_downloadStatus = UnknownDownloadStatus,
     m_features = [],
     m_requirement = '''',
     m_licenseText = '''',
     m_licenseLink = '''',
     m_directoryLink = '''',
     m_documentationLink = '''',
     m_repoUri = '''',
     m_version = ''Unknown Version'',
     m_lastUpdatedDate = ''Unknown Date'',
     m_binarySizeInKB = 0,
     m_dependencies = [],
     m_compatibleEngines = [],
     m_incompatibleEngineDependencies = [],
     m_incompatibleGemDependencies = [],
     m_downloadSourceUri = '''',
     m_sourceControlUri = '''',
     m_sourceControlRef = '''' \<rparr>"

subsection \<open>Member functions whose bodies are outside the sources\<close>

text \<open>Modelled from the spec: the body of \<open>GemInfo::GetPlatformString\<close> (declared in
  GemInfo.h, defined in a GemInfo.cpp that is not among the sources). The spec: "canonical
  human-readable label for exactly one platform flag; undefined/empty for a value that is
  not a single recognized flag". The spec gives no label text other than the platforms'
  names (Android, iOS, Linux, macOS, Windows), which are the labels here.
\<close>

fun GetPlatformString :: "Platform \<Rightarrow> string" where
  "GetPlatformString Android = ''Android''"
| "GetPlatformString iOS = ''iOS''"
| "GetPlatformString Linux = ''Linux''"
| "GetPlatformString macOS = ''macOS''"
| "GetPlatformString Windows = ''Windows''"
| "GetPlatformString NumPlatforms = ''''"

text \<open>Modelled from the spec: the body of \<open>GemInfo::GetPlatformFromString\<close> (declared in
  GemInfo.h, body not among the sources). The spec: "the single platform flag matching a
  case-sensitive (or case-insensitive, must be consistent with GetPlatformString) label,
  or no bits set if unrecognized". The comparison here is case-sensitive equality with
  the label \<open>GetPlatformString\<close> gives.
\<close>

definition GetPlatformFromString :: "string \<Rightarrow> Platforms" where
  "GetPlatformFromString platformText =
     (case find (\<lambda>p. GetPlatformString p = platformText) platform_flags of
        Some p \<Rightarrow> Platform_value p
      | None \<Rightarrow> 0)"

text \<open>Modelled from the spec: the body of \<open>GemInfo::GetPlatformsFromStringList\<close> (declared
  in GemInfo.h, body not among the sources). The spec: "bitwise union of
  GetPlatformFromString applied to each entry; unrecognized entries contribute nothing
  (silently ignored, not an error)". The loop starts from the empty flag set and ORs the
  flags of each entry into it, front to back.
\<close>

fun GetPlatformsFromStringList_loop :: "string list \<Rightarrow> Platforms \<Rightarrow> Platforms" where
  "GetPlatformsFromStringList_loop [] platforms = platforms"
| "GetPlatformsFromStringList_loop (platformString # rest) platforms =
     GetPlatformsFromStringList_loop rest (platforms OR GetPlatformFromString platformString)"

definition GetPlatformsFromStringList :: "string list \<Rightarrow> Platforms" where
  "GetPlatformsFromStringList platformStrings =
     GetPlatformsFromStringList_loop platformStrings 0"

text \<open>Modelled from the spec: the body of \<open>GemInfo::IsPlatformSupported\<close> (declared in
  GemInfo.h, body not among the sources). The spec: "true iff the corresponding bit is
  set in the instance's platform set". The test is the flag set ANDed with the
  enumerator's value, converted to \<open>bool\<close>.
\<close>

definition IsPlatformSupported :: "GemInfo \<Rightarrow> Platform \<Rightarrow> bool" where
  "IsPlatformSupported gem platform \<longleftrightarrow> (m_platforms gem AND Platform_value platform) \<noteq> 0"

text \<open>Modelled from the spec: the body of \<open>GemInfo::IsCompatible\<close> (declared in GemInfo.h,
  body not among the sources). The spec: "true iff none of the incompatible-engine/
  gem-dependency lists are non-empty".
\<close>

definition IsCompatible :: "GemInfo \<Rightarrow> bool" where
  "IsCompatible gem \<longleftrightarrow>
     m_incompatibleEngineDependencies gem = [] \<and> m_incompatibleGemDependencies gem = []"

section \<open>GemRepoAddDialog: the dialog that adds a gem repository (GemRepo/GemRepoAddDialog.cpp)\<close>

subsection \<open>The Qt JSON values the constructor reads\<close>

text \<open>
  \<open>QJsonValue\<close> with its seven types. An object is an association list from member
  names to values; a lookup takes the first pair with the name.
\<close>

datatype QJsonValue =
  JNull | JBool bool | JDouble real | JString string
  | JArray "QJsonValue list" | JObject "(string \<times> QJsonValue) list" | JUndefined

type_synonym QJsonArray = "QJsonValue list"
type_synonym QJsonObject = "(string \<times> QJsonValue) list"

text \<open>
  \<open>QJsonDocument\<close>: null (what \<open>QJsonDocument::fromJson\<close> returns for text that is not
  valid JSON), or a top-level array, or a top-level object.
\<close>

datatype QJsonDocument =
  NullDocument | ArrayDocument QJsonArray | ObjectDocument QJsonObject

text \<open>\<open>QJsonDocument::object()\<close>: the empty object unless the document holds an object.\<close>

fun object :: "QJsonDocument \<Rightarrow> QJsonObject" where
  "object (ObjectDocument obj) = obj"
| "object _ = []"

text \<open>\<open>QJsonObject::contains(key)\<close>.\<close>

definition contains :: "QJsonObject \<Rightarrow> string \<Rightarrow> bool" where
  "contains obj key \<longleftrightarrow> map_of obj key \<noteq> None"

text \<open>
  \<open>QJsonObject::operator[](key)\<close> on the non-const local \<open>jsonObject\<close>: the member's
  value; for a name the object lacks, Qt creates a member with the value Null.
\<close>

definition value_at :: "QJsonObject \<Rightarrow> string \<Rightarrow> QJsonValue" where
  "value_at obj key = (case map_of obj key of Some v \<Rightarrow> v | None \<Rightarrow> JNull)"

text \<open>
  \<open>QJsonValue::isArray()\<close>, \<open>toArray()\<close> (empty unless an array), \<open>isString()\<close> and
  \<open>toString()\<close> (the string of a value of type String, the null string for every other
  type).
\<close>

fun isArray :: "QJsonValue \<Rightarrow> bool" where
  "isArray (JArray vs) = True"
| "isArray _ = False"

fun toArray :: "QJsonValue \<Rightarrow> QJsonArray" where
  "toArray (JArray vs) = vs"
| "toArray _ = []"

fun isString :: "QJsonValue \<Rightarrow> bool" where
  "isString (JString s) = True"
| "isString _ = False"

fun toString :: "QJsonValue \<Rightarrow> string" where
  "toString (JString s) = s"
| "toString _ = ''''"

subsection \<open>The files and services the constructor reads\<close>

text \<open>
  What \<open>QFile::open(QIODevice::ReadOnly | QIODevice::Text)\<close> finds at a path: no file,
  a file that cannot be opened for reading, or a file whose \<open>readAll()\<close> gives the bytes.
\<close>

datatype QFile = FileMissing | FileUnreadable | FileContents string

text \<open>
  The collaborators of the constructor, none of them code of the dialog:
  \<open>PythonBindingsInterface::Get()->GetCacheFile(url)\<close>, the file system, and Qt's
  parser \<open>QJsonDocument::fromJson\<close>.
\<close>

record Environment =
  GetCacheFile :: "string \<Rightarrow> string"
  fileSystem :: "string \<Rightarrow> QFile"
  fromJson :: "string \<Rightarrow> QJsonDocument"

subsection \<open>The dialog's state\<close>

text \<open>
  A \<open>QStandardItemModel\<close> with one column is the list of its rows' display texts
  (\<open>QStandardItem(text)\<close> stores \<open>text\<close> under \<open>Qt::DisplayRole\<close>); \<open>appendRow\<close> adds a
  row after the last.
\<close>

type_synonym QStandardItemModel = "string list"

definition appendRow :: "QStandardItemModel \<Rightarrow> string \<Rightarrow> QStandardItemModel" where
  "appendRow model text = model @ [text]"

text \<open>
  The state of a \<open>QListView\<close> with its own selection model: the current index
  (\<open>None\<close> is the invalid index) and the selected rows.
\<close>

record QListView =
  currentIndex :: "nat option"
  selectedRows :: "nat list"

text \<open>
  The members of the dialog. \<open>m_repoPath\<close> is the text of \<open>m_repoPath->lineEdit()\<close>,
  the only part of that widget the dialog reads or writes.
\<close>

record GemRepoAddDialog =
  m_repoPath :: string
  m_curatedRepos :: QListView
  m_curatedReposModel :: QStandardItemModel
  m_uncuratedRepos :: QListView
  m_uncuratedReposModel :: QStandardItemModel

subsection \<open>The constructor\<close>

text \<open>
  The range-for loop of lines 104-108 and 167-171: one \<open>QStandardItem(value.toString())\<close>
  appended per element of the array, front to back.
\<close>

fun appendRows :: "QJsonArray \<Rightarrow> QStandardItemModel \<Rightarrow> QStandardItemModel" where
  "appendRows [] model = model"
| "appendRows (v # rest) model = appendRows rest (appendRow model (toString v))"

text \<open>
  \<open>GemRepoAddDialog::GemRepoAddDialog\<close>, without the layout, labels and buttons. Both
  models are created empty, both views with no current index and no selection, the path
  field with the text \<open>""\<close>. The constructor has no \<open>return\<close>, \<open>throw\<close> or error branch:
  a file that does not open, and a document without the array, skip the loop.
\<close>

definition GemRepoAddDialog_new :: "Environment \<Rightarrow> GemRepoAddDialog" where
  "GemRepoAddDialog_new env =
     (let curated_repos = GetCacheFile env ''https://canonical.o3de.org/curated.json'';
          curatedReposModel =
            (case fileSystem env curated_repos of
               FileContents jsonData \<Rightarrow>
                 (let document = fromJson env jsonData;
                      jsonObject = object document
                  in if contains jsonObject ''curated''
                        \<and> isArray (value_at jsonObject ''curated'')
                     then appendRows (toArray (value_at jsonObject ''curated'')) []
                     else [])
             | _ \<Rightarrow> []);
          uncurated_repos = GetCacheFile env ''https://canonical.o3de.org/uncurated.json'';
          uncuratedReposModel =
            (case fileSystem env uncurated_repos of
               FileContents jsonData \<Rightarrow>
                 (let document = fromJson env jsonData;
                      jsonObject = object document
                  in if contains jsonObject ''uncurated''
                        \<and> isArray (value_at jsonObject ''uncurated'')
                     then appendRows (toArray (value_at jsonObject ''uncurated'')) []
                     else [])
             | _ \<Rightarrow> [])
      in \<lparr> m_repoPath = '''',
           m_curatedRepos = \<lparr> currentIndex = None, selectedRows = [] \<rparr>,
           m_curatedReposModel = curatedReposModel,
           m_uncuratedRepos = \<lparr> currentIndex = None, selectedRows = [] \<rparr>,
           m_uncuratedReposModel = uncuratedReposModel \<rparr>)"

text \<open>The cache file each list is read from, as the constructor resolves it.\<close>

definition curatedFile :: "Environment \<Rightarrow> QFile" where
  "curatedFile env =
     fileSystem env (GetCacheFile env ''https://canonical.o3de.org/curated.json'')"

definition uncuratedFile :: "Environment \<Rightarrow> QFile" where
  "uncuratedFile env =
     fileSystem env (GetCacheFile env ''https://canonical.o3de.org/uncurated.json'')"

subsection \<open>Selection and the path field\<close>

text \<open>
  \<open>index.data(Qt::DisplayRole).toString()\<close>: the display text of the row of a valid
  index, the null string for the invalid index.
\<close>

definition displayText :: "QStandardItemModel \<Rightarrow> nat option \<Rightarrow> string" where
  "displayText model index =
     (case index of
        None \<Rightarrow> ''''
      | Some row \<Rightarrow> if row < length model then model ! row else '''')"

text \<open>
  The two lambdas connected to \<open>QItemSelectionModel::selectionChanged\<close> (lines 112-121
  and 175-184): each reads the current index of its own view and sets the line edit's
  text to that row's display text.
\<close>

definition curated_selectionChanged :: "GemRepoAddDialog \<Rightarrow> GemRepoAddDialog" where
  "curated_selectionChanged d =
     (let index = currentIndex (m_curatedRepos d);
          itemText = displayText (m_curatedReposModel d) index
      in d\<lparr>m_repoPath := itemText\<rparr>)"

definition uncurated_selectionChanged :: "GemRepoAddDialog \<Rightarrow> GemRepoAddDialog" where
  "uncurated_selectionChanged d =
     (let index = currentIndex (m_uncuratedRepos d);
          itemText = displayText (m_uncuratedReposModel d) index
      in d\<lparr>m_repoPath := itemText\<rparr>)"

text \<open>
  \<open>QItemSelectionModel::setCurrentIndex(index, NoUpdate)\<close>: the row becomes the current
  index of the view; the selection stays. No slot of the dialog is connected to
  \<open>currentChanged\<close>.
\<close>

definition setCurrentIndex :: "nat \<Rightarrow> QListView \<Rightarrow> QListView" where
  "setCurrentIndex row view = view\<lparr>currentIndex := Some row\<rparr>"

text \<open>
  \<open>QItemSelectionModel::select(index, ClearAndSelect)\<close> on the selection model of a view
  in \<open>SingleSelection\<close> mode. The row replaces the selection, and \<open>selectionChanged\<close>
  is emitted, which runs the lambda connected to that selection model, only when the
  selection is not the same as before: for the row that already is the selection
  nothing is emitted and nothing runs. The current index is not touched. A row the model
  does not have is no index of the view.
\<close>

definition select_curated :: "nat \<Rightarrow> GemRepoAddDialog \<Rightarrow> GemRepoAddDialog" where
  "select_curated row d =
     (if row < length (m_curatedReposModel d) \<and> selectedRows (m_curatedRepos d) \<noteq> [row]
      then curated_selectionChanged
             (d\<lparr>m_curatedRepos := (m_curatedRepos d)\<lparr>selectedRows := [row]\<rparr>\<rparr>)
      else d)"

definition select_uncurated :: "nat \<Rightarrow> GemRepoAddDialog \<Rightarrow> GemRepoAddDialog" where
  "select_uncurated row d =
     (if row < length (m_uncuratedReposModel d) \<and> selectedRows (m_uncuratedRepos d) \<noteq> [row]
      then uncurated_selectionChanged
             (d\<lparr>m_uncuratedRepos := (m_uncuratedRepos d)\<lparr>selectedRows := [row]\<rparr>\<rparr>)
      else d)"

text \<open>
  The user selecting an entry with a mouse press or a key press: the view first makes
  the row its current index and then asks its selection model to select it. (Selecting
  by dragging the mouse over the list is a different sequence and is not this event.)
\<close>

definition press_curated :: "nat \<Rightarrow> GemRepoAddDialog \<Rightarrow> GemRepoAddDialog" where
  "press_curated row d =
     (if row < length (m_curatedReposModel d)
      then select_curated row (d\<lparr>m_curatedRepos := setCurrentIndex row (m_curatedRepos d)\<rparr>)
      else d)"

definition press_uncurated :: "nat \<Rightarrow> GemRepoAddDialog \<Rightarrow> GemRepoAddDialog" where
  "press_uncurated row d =
     (if row < length (m_uncuratedReposModel d)
      then select_uncurated row
             (d\<lparr>m_uncuratedRepos := setCurrentIndex row (m_uncuratedRepos d)\<rparr>)
      else d)"

text \<open>The user typing into the line edit: the field then holds what was entered.\<close>

definition editText :: "string \<Rightarrow> GemRepoAddDialog \<Rightarrow> GemRepoAddDialog" where
  "editText text d = d\<lparr>m_repoPath := text\<rparr>"

text \<open>\<open>GemRepoAddDialog::GetRepoPath\<close>: \<open>return m_repoPath->lineEdit()->text();\<close>\<close>

definition GetRepoPath :: "GemRepoAddDialog \<Rightarrow> string" where
  "GetRepoPath d = m_repoPath d"

subsection \<open>An example cache\<close>

text \<open>
  A concrete environment for the examples: the two URLs resolve to two paths of a cache
  directory, the file system holds the two given files there, and the parser is Qt's
  on the texts the examples use (every other text counts as not JSON).
\<close>

definition exampleCacheFile :: "string \<Rightarrow> string" where
  "exampleCacheFile url =
     (if url = ''https://canonical.o3de.org/curated.json'' then ''Cache/curated.json''
      else if url = ''https://canonical.o3de.org/uncurated.json'' then ''Cache/uncurated.json''
      else '''')"

definition exampleParser :: "string \<Rightarrow> QJsonDocument" where
  \<open>exampleParser jsonData =
     (if jsonData = ''{"curated": ["a","b"]}''
      then ObjectDocument [(''curated'', JArray [JString ''a'', JString ''b''])]
      else if jsonData = ''{"uncurated": ["u", 1, {}, null]}''
      then ObjectDocument [(''uncurated'', JArray [JString ''u'', JDouble 1, JObject [], JNull])]
      else if jsonData = ''{"curated": "not-an-array"}''
      then ObjectDocument [(''curated'', JString ''not-an-array'')]
      else if jsonData = ''{"repos": ["a"]}''
      then ObjectDocument [(''repos'', JArray [JString ''a''])]
      else if jsonData = ''["a","b"]''
      then ArrayDocument [JString ''a'', JString ''b'']
      else NullDocument)\<close>

definition exampleEnvironment :: "QFile \<Rightarrow> QFile \<Rightarrow> Environment" where
  "exampleEnvironment curated uncurated =
     \<lparr> GetCacheFile = exampleCacheFile,
       fileSystem = (\<lambda>path. if path = ''Cache/curated.json'' then curated
                            else if path = ''Cache/uncurated.json'' then uncurated
                            else FileMissing),
       fromJson = exampleParser \<rparr>"

definition exampleDialog :: GemRepoAddDialog where
  \<open>exampleDialog =
     GemRepoAddDialog_new
       (exampleEnvironment (FileContents ''{"curated": ["a","b"]}'')
                           (FileContents ''{"uncurated": ["u", 1, {}, null]}''))\<close>

section \<open>Properties of GemInfo\<close>

subsection \<open>Default construction\<close>

text \<open>
  C10. A default-constructed \<open>GemInfo\<close> has the name "Unknown Gem Name", the origin
  "Unknown Creator" and the version "Unknown Version"; its path is empty, its gem origin
  is \<open>Local\<close>, its download status is \<open>UnknownDownloadStatus\<close> and it is not added. In
  particular its name is not empty, although the record was never populated.
\<close>

theorem GemInfo_default_fields:
  "m_name GemInfo_default = ''Unknown Gem Name''
   \<and> m_origin GemInfo_default = ''Unknown Creator''
   \<and> m_version GemInfo_default = ''Unknown Version''
   \<and> m_path GemInfo_default = ''''
   \<and> m_gemOrigin GemInfo_default = Local
   \<and> m_downloadStatus GemInfo_default = UnknownDownloadStatus
   \<and> m_isAdded GemInfo_default = False
   \<and> m_name GemInfo_default \<noteq> ''''"
  by (simp add: GemInfo_default_def)

subsection \<open>Compatibility\<close>

text \<open>
  C6. For every \<open>GemInfo\<close>, \<open>IsCompatible\<close> is false if and only if at least one of
  \<open>m_incompatibleEngineDependencies\<close> and \<open>m_incompatibleGemDependencies\<close> is
  non-empty, and true otherwise.
\<close>

theorem IsCompatible_false_iff:
  "\<not> IsCompatible gem \<longleftrightarrow>
     m_incompatibleEngineDependencies gem \<noteq> [] \<or> m_incompatibleGemDependencies gem \<noteq> []"
  by (simp add: IsCompatible_def)

text \<open>The three cases the spec lists: (empty, empty), (non-empty, empty), (empty, non-empty).\<close>

theorem IsCompatible_false_iff_witness:
  "IsCompatible GemInfo_default
   \<and> \<not> IsCompatible (GemInfo_default\<lparr>m_incompatibleEngineDependencies := [''o3de>=2.0'']\<rparr>)
   \<and> \<not> IsCompatible (GemInfo_default\<lparr>m_incompatibleGemDependencies := [''Atom==1.0'']\<rparr>)"
  using IsCompatible_false_iff [of GemInfo_default]
    IsCompatible_false_iff
      [of "GemInfo_default\<lparr>m_incompatibleEngineDependencies := [''o3de>=2.0'']\<rparr>"]
    IsCompatible_false_iff
      [of "GemInfo_default\<lparr>m_incompatibleGemDependencies := [''Atom==1.0'']\<rparr>"]
  by (simp add: GemInfo_default_def)

subsection \<open>Platform flags\<close>

lemma Platform_value_single_bit:
  "Platform_shift platform = Some k \<Longrightarrow> Platform_value platform = push_bit k 1"
  by (cases platform) auto

lemma and_single_bit_nonzero:
  fixes w :: "32 word"
  shows "w AND push_bit k 1 \<noteq> 0 \<longleftrightarrow> bit w k"
  by (simp add: bit_iff_and_push_bit_not_eq_0)

text \<open>
  C7. For every \<open>GemInfo\<close>, whatever bits \<open>m_platforms\<close> holds, and every platform flag
  (an enumerator \<open>1 << k\<close>), \<open>IsPlatformSupported\<close> is true if and only if bit \<open>k\<close> is
  set in \<open>m_platforms\<close>.
\<close>

theorem IsPlatformSupported_iff_bit:
  assumes "Platform_shift platform = Some k"
  shows "Platform_value platform = push_bit k 1
         \<and> (IsPlatformSupported gem platform \<longleftrightarrow> bit (m_platforms gem) k)"
proof -
  have v: "Platform_value platform = push_bit k 1"
    using assms by (rule Platform_value_single_bit)
  have "IsPlatformSupported gem platform \<longleftrightarrow> m_platforms gem AND push_bit k 1 \<noteq> 0"
    unfolding IsPlatformSupported_def v ..
  also have "\<dots> \<longleftrightarrow> bit (m_platforms gem) k"
    by (rule and_single_bit_nonzero)
  finally show ?thesis
    using v by blast
qed

text \<open>A gem for Linux and Windows (the flags 4 and 16): Linux is supported, macOS is not.\<close>

theorem IsPlatformSupported_iff_bit_witness:
  "Platform_shift Linux = Some 2
   \<and> IsPlatformSupported (GemInfo_default\<lparr>m_platforms := 20\<rparr>) Linux
   \<and> Platform_shift macOS = Some 3
   \<and> \<not> IsPlatformSupported (GemInfo_default\<lparr>m_platforms := 20\<rparr>) macOS"
  using IsPlatformSupported_iff_bit [of Linux 2 "GemInfo_default\<lparr>m_platforms := 20\<rparr>"]
    IsPlatformSupported_iff_bit [of macOS 3 "GemInfo_default\<lparr>m_platforms := 20\<rparr>"]
  by simp

text \<open>
  C4. For each of the five platform flags (Android, iOS, Linux, macOS, Windows),
  \<open>GetPlatformFromString (GetPlatformString p)\<close> is the flag \<open>p\<close> again.
\<close>

theorem GetPlatformFromString_roundtrip:
  assumes "platform \<in> set platform_flags"
  shows "GetPlatformFromString (GetPlatformString platform) = Platform_value platform"
proof (cases platform)
qed (use assms in \<open>simp_all add: platform_flags_def GetPlatformFromString_def\<close>)

theorem GetPlatformFromString_roundtrip_witness:
  "Android \<in> set platform_flags
   \<and> GetPlatformFromString (GetPlatformString Android) = 1
   \<and> GetPlatformFromString (GetPlatformString iOS) = 2
   \<and> GetPlatformFromString (GetPlatformString Linux) = 4
   \<and> GetPlatformFromString (GetPlatformString macOS) = 8
   \<and> GetPlatformFromString (GetPlatformString Windows) = 16"
  using GetPlatformFromString_roundtrip [of Android] GetPlatformFromString_roundtrip [of iOS]
    GetPlatformFromString_roundtrip [of Linux] GetPlatformFromString_roundtrip [of macOS]
    GetPlatformFromString_roundtrip [of Windows]
  by (simp add: platform_flags_def)

text \<open>
  \<open>NumPlatforms\<close> has the value 5: it is no single flag, has no label, and is outside
  both statements above. It counts as supported when Android or Linux is.
\<close>

lemma NumPlatforms_no_flag:
  "GetPlatformFromString (GetPlatformString NumPlatforms) = 0"
  "IsPlatformSupported gem NumPlatforms \<longleftrightarrow>
     bit (m_platforms gem) 0 \<or> bit (m_platforms gem) 2"
proof -
  show "GetPlatformFromString (GetPlatformString NumPlatforms) = 0"
    by (simp add: GetPlatformFromString_def platform_flags_def)
  have five: "(5 :: 32 word) = push_bit 0 1 OR push_bit 2 1"
    by simp
  have "IsPlatformSupported gem NumPlatforms \<longleftrightarrow>
      (m_platforms gem AND push_bit 0 1) OR (m_platforms gem AND push_bit 2 1) \<noteq> 0"
    unfolding IsPlatformSupported_def Platform_value.simps five bit.conj_disj_distrib ..
  also have "\<dots> \<longleftrightarrow> m_platforms gem AND push_bit 0 1 \<noteq> 0
      \<or> m_platforms gem AND push_bit 2 1 \<noteq> 0"
    by (simp only: or_eq_0_iff de_Morgan_conj)
  finally show "IsPlatformSupported gem NumPlatforms \<longleftrightarrow>
      bit (m_platforms gem) 0 \<or> bit (m_platforms gem) 2"
    unfolding and_single_bit_nonzero .
qed

subsection \<open>Lists of platform names\<close>

lemma GetPlatformsFromStringList_loop_bit:
  "bit (GetPlatformsFromStringList_loop platformStrings platforms) n \<longleftrightarrow>
     bit platforms n \<or> (\<exists>s \<in> set platformStrings. bit (GetPlatformFromString s) n)"
  by (induction platformStrings arbitrary: platforms) (auto simp: bit_or_iff)

lemma GetPlatformsFromStringList_loop_foldr:
  "GetPlatformsFromStringList_loop platformStrings platforms =
     platforms OR foldr (OR) (map GetPlatformFromString platformStrings) 0"
  by (induction platformStrings arbitrary: platforms) (simp_all add: or.assoc)

lemma GetPlatformsFromStringList_loop_append:
  "GetPlatformsFromStringList_loop (xs @ ys) platforms =
     GetPlatformsFromStringList_loop ys (GetPlatformsFromStringList_loop xs platforms)"
  by (induction xs arbitrary: platforms) simp_all

lemma GetPlatformFromString_unrecognized:
  assumes "platformText \<notin> set (map GetPlatformString platform_flags)"
  shows "GetPlatformFromString platformText = 0"
proof -
  have "find (\<lambda>p. GetPlatformString p = platformText) platform_flags = None"
    using assms by (auto simp: find_None_iff)
  then show ?thesis
    by (simp add: GetPlatformFromString_def)
qed

text \<open>
  C5. For every list of strings, \<open>GetPlatformsFromStringList\<close> is the bitwise union of
  \<open>GetPlatformFromString\<close> of each entry: a bit is set in the result exactly when some
  entry's flags have it. An entry that is the label of no platform flag has no bits, and
  the result is the same as for the list without it; the function has no error result.
\<close>

theorem GetPlatformsFromStringList_union:
  "(\<forall>n. bit (GetPlatformsFromStringList platformStrings) n \<longleftrightarrow>
         (\<exists>s \<in> set platformStrings. bit (GetPlatformFromString s) n))
   \<and> GetPlatformsFromStringList platformStrings =
       foldr (OR) (map GetPlatformFromString platformStrings) 0
   \<and> (platformText \<notin> set (map GetPlatformString platform_flags) \<longrightarrow>
        GetPlatformFromString platformText = 0
        \<and> GetPlatformsFromStringList (before @ platformText # after) =
            GetPlatformsFromStringList (before @ after))"
proof (intro conjI allI impI)
  fix n
  show "bit (GetPlatformsFromStringList platformStrings) n \<longleftrightarrow>
          (\<exists>s \<in> set platformStrings. bit (GetPlatformFromString s) n)"
    by (simp add: GetPlatformsFromStringList_def GetPlatformsFromStringList_loop_bit)
next
  show "GetPlatformsFromStringList platformStrings =
          foldr (OR) (map GetPlatformFromString platformStrings) 0"
    by (simp add: GetPlatformsFromStringList_def GetPlatformsFromStringList_loop_foldr)
next
  assume u: "platformText \<notin> set (map GetPlatformString platform_flags)"
  then show z: "GetPlatformFromString platformText = 0"
    by (rule GetPlatformFromString_unrecognized)
  show "GetPlatformsFromStringList (before @ platformText # after) =
          GetPlatformsFromStringList (before @ after)"
    by (simp add: GetPlatformsFromStringList_def GetPlatformsFromStringList_loop_append z)
qed

text \<open>"PlayStation" is no platform label: between "Windows" and "Linux" it changes nothing.\<close>

theorem GetPlatformsFromStringList_union_witness:
  "GetPlatformsFromStringList [''Windows'', ''PlayStation'', ''Linux''] = 20
   \<and> GetPlatformFromString ''Windows'' OR GetPlatformFromString ''Linux'' = 20
   \<and> ''PlayStation'' \<notin> set (map GetPlatformString platform_flags)
   \<and> GetPlatformFromString ''PlayStation'' = 0
   \<and> GetPlatformsFromStringList [''Windows'', ''Linux''] = 20"
proof -
  note union = GetPlatformsFromStringList_union
      [of "[''Windows'', ''PlayStation'', ''Linux'']" "''PlayStation''"
          "[''Windows'']" "[''Linux'']"]
  have unrecognized: "''PlayStation'' \<notin> set (map GetPlatformString platform_flags)"
    by (simp add: platform_flags_def)
  have windows: "GetPlatformFromString ''Windows'' = 16"
    and linux: "GetPlatformFromString ''Linux'' = 4"
    by (simp_all add: GetPlatformFromString_def platform_flags_def)
  from union unrecognized
  have step: "GetPlatformFromString ''PlayStation'' = 0
      \<and> GetPlatformsFromStringList ([''Windows''] @ ''PlayStation'' # [''Linux'']) =
          GetPlatformsFromStringList ([''Windows''] @ [''Linux''])"
    by blast
  then have zero: "GetPlatformFromString ''PlayStation'' = 0"
    by blast
  from step
  have same: "GetPlatformsFromStringList [''Windows'', ''PlayStation'', ''Linux''] =
                GetPlatformsFromStringList [''Windows'', ''Linux'']"
    by simp
  from union have "GetPlatformsFromStringList [''Windows'', ''PlayStation'', ''Linux''] =
      foldr (OR) (map GetPlatformFromString [''Windows'', ''PlayStation'', ''Linux'']) 0"
    by blast
  then have all: "GetPlatformsFromStringList [''Windows'', ''PlayStation'', ''Linux''] = 20"
    by (simp add: windows linux zero)
  show ?thesis
    using all same unrecognized zero by (simp add: windows linux)
qed

section \<open>Properties of GemRepoAddDialog\<close>

subsection \<open>What the constructor puts into the two models\<close>

lemma appendRows_eq: "appendRows vs model = model @ map toString vs"
  by (induction vs arbitrary: model) (simp_all add: appendRow_def)

lemma curatedReposModel_new:
  "m_curatedReposModel (GemRepoAddDialog_new env) =
     (case curatedFile env of
        FileContents jsonData \<Rightarrow>
          if contains (object (fromJson env jsonData)) ''curated''
             \<and> isArray (value_at (object (fromJson env jsonData)) ''curated'')
          then map toString (toArray (value_at (object (fromJson env jsonData)) ''curated''))
          else []
      | _ \<Rightarrow> [])"
  by (simp add: GemRepoAddDialog_new_def curatedFile_def Let_def appendRows_eq
      split: QFile.split)

lemma uncuratedReposModel_new:
  "m_uncuratedReposModel (GemRepoAddDialog_new env) =
     (case uncuratedFile env of
        FileContents jsonData \<Rightarrow>
          if contains (object (fromJson env jsonData)) ''uncurated''
             \<and> isArray (value_at (object (fromJson env jsonData)) ''uncurated'')
          then map toString (toArray (value_at (object (fromJson env jsonData)) ''uncurated''))
          else []
      | _ \<Rightarrow> [])"
  by (simp add: GemRepoAddDialog_new_def uncuratedFile_def Let_def appendRows_eq
      split: QFile.split)

lemma toString_not_string: "\<not> isString v \<Longrightarrow> toString v = ''''"
  by (cases v) simp_all

text \<open>The files and the models of the example.\<close>

lemma exampleEnvironment_files:
  "curatedFile (exampleEnvironment curated uncurated) = curated"
  "uncuratedFile (exampleEnvironment curated uncurated) = uncurated"
  "fromJson (exampleEnvironment curated uncurated) = exampleParser"
  by (simp_all add: curatedFile_def uncuratedFile_def exampleEnvironment_def
      exampleCacheFile_def)

text \<open>
  C1. For each of the two cache files: if the file opens and its text parses to a
  document whose top-level object contains an array member "curated" (respectively
  "uncurated"), the list model holds one row per element of the array, in the array's
  order, each with the element's string value as its text.
\<close>

theorem GemRepoAddDialog_new_populates:
  "(curatedFile env = FileContents jsonData
    \<and> contains (object (fromJson env jsonData)) ''curated''
    \<and> value_at (object (fromJson env jsonData)) ''curated'' = JArray curatedRepos
    \<longrightarrow> m_curatedReposModel (GemRepoAddDialog_new env) = map toString curatedRepos)
   \<and> (uncuratedFile env = FileContents jsonData'
    \<and> contains (object (fromJson env jsonData')) ''uncurated''
    \<and> value_at (object (fromJson env jsonData')) ''uncurated'' = JArray communityRepos
    \<longrightarrow> m_uncuratedReposModel (GemRepoAddDialog_new env) = map toString communityRepos)"
  by (simp add: curatedReposModel_new uncuratedReposModel_new)

text \<open>
  The spec's example: a curated cache file with the text \<open>{"curated": ["a","b"]}\<close>
  gives exactly the rows "a", "b".
\<close>

theorem GemRepoAddDialog_new_populates_witness:
  \<open>curatedFile (exampleEnvironment (FileContents ''{"curated": ["a","b"]}'') FileMissing)
     = FileContents ''{"curated": ["a","b"]}''
   \<and> exampleParser ''{"curated": ["a","b"]}''
     = ObjectDocument [(''curated'', JArray [JString ''a'', JString ''b''])]
   \<and> m_curatedReposModel (GemRepoAddDialog_new
        (exampleEnvironment (FileContents ''{"curated": ["a","b"]}'') FileMissing))
     = [''a'', ''b'']\<close>
  using GemRepoAddDialog_new_populates
    [of \<open>exampleEnvironment (FileContents ''{"curated": ["a","b"]}'') FileMissing\<close>
        \<open>''{"curated": ["a","b"]}''\<close> \<open>[JString ''a'', JString ''b'']\<close>]
  by (simp add: exampleEnvironment_files exampleParser_def contains_def value_at_def)

text \<open>
  C9. With the array member present, the model has as many rows as the array has
  elements, whatever their JSON types; the row of an element that is not a string has
  the empty text.
\<close>

theorem GemRepoAddDialog_new_row_per_element:
  "(curatedFile env = FileContents jsonData
    \<and> contains (object (fromJson env jsonData)) ''curated''
    \<and> value_at (object (fromJson env jsonData)) ''curated'' = JArray curatedRepos
    \<longrightarrow> length (m_curatedReposModel (GemRepoAddDialog_new env)) = length curatedRepos
        \<and> (\<forall>i < length curatedRepos. \<not> isString (curatedRepos ! i) \<longrightarrow>
              m_curatedReposModel (GemRepoAddDialog_new env) ! i = ''''))
   \<and> (uncuratedFile env = FileContents jsonData'
    \<and> contains (object (fromJson env jsonData')) ''uncurated''
    \<and> value_at (object (fromJson env jsonData')) ''uncurated'' = JArray communityRepos
    \<longrightarrow> length (m_uncuratedReposModel (GemRepoAddDialog_new env)) = length communityRepos
        \<and> (\<forall>i < length communityRepos. \<not> isString (communityRepos ! i) \<longrightarrow>
              m_uncuratedReposModel (GemRepoAddDialog_new env) ! i = ''''))"
  by (simp add: curatedReposModel_new uncuratedReposModel_new toString_not_string)

text \<open>
  An uncurated file \<open>{"uncurated": ["u", 1, {}, null]}\<close>: four rows, the last three
  with empty text.
\<close>

theorem GemRepoAddDialog_new_row_per_element_witness:
  \<open>uncuratedFile (exampleEnvironment FileMissing
        (FileContents ''{"uncurated": ["u", 1, {}, null]}''))
     = FileContents ''{"uncurated": ["u", 1, {}, null]}''
   \<and> length (m_uncuratedReposModel (GemRepoAddDialog_new (exampleEnvironment FileMissing
        (FileContents ''{"uncurated": ["u", 1, {}, null]}'')))) = 4
   \<and> m_uncuratedReposModel (GemRepoAddDialog_new (exampleEnvironment FileMissing
        (FileContents ''{"uncurated": ["u", 1, {}, null]}''))) ! 1 = ''''
   \<and> m_uncuratedReposModel (GemRepoAddDialog_new (exampleEnvironment FileMissing
        (FileContents ''{"uncurated": ["u", 1, {}, null]}''))) ! 2 = ''''
   \<and> m_uncuratedReposModel (GemRepoAddDialog_new (exampleEnvironment FileMissing
        (FileContents ''{"uncurated": ["u", 1, {}, null]}''))) ! 3 = ''''\<close>
proof -
  let ?env = \<open>exampleEnvironment FileMissing
                (FileContents ''{"uncurated": ["u", 1, {}, null]}'')\<close>
  let ?arr = "[JString ''u'', JDouble 1, JObject [], JNull]"
  have opened: \<open>uncuratedFile ?env = FileContents ''{"uncurated": ["u", 1, {}, null]}''\<close>
    by (simp add: exampleEnvironment_files)
  have doc: \<open>object (fromJson ?env ''{"uncurated": ["u", 1, {}, null]}'')
               = [(''uncurated'', JArray ?arr)]\<close>
    by (simp add: exampleEnvironment_files exampleParser_def)
  from GemRepoAddDialog_new_row_per_element
         [of ?env _ _ \<open>''{"uncurated": ["u", 1, {}, null]}''\<close> ?arr]
  have rows: "length (m_uncuratedReposModel (GemRepoAddDialog_new ?env)) = length ?arr
      \<and> (\<forall>i < length ?arr. \<not> isString (?arr ! i) \<longrightarrow>
            m_uncuratedReposModel (GemRepoAddDialog_new ?env) ! i = '''')"
    unfolding opened doc by (simp add: contains_def value_at_def)
  then have len: "length (m_uncuratedReposModel (GemRepoAddDialog_new ?env)) = 4"
    by simp
  from rows have r: "\<And>i. i < 4 \<Longrightarrow> \<not> isString (?arr ! i) \<Longrightarrow>
      m_uncuratedReposModel (GemRepoAddDialog_new ?env) ! i = ''''"
    by simp
  have "m_uncuratedReposModel (GemRepoAddDialog_new ?env) ! 1 = ''''"
    by (rule r) simp_all
  moreover have "m_uncuratedReposModel (GemRepoAddDialog_new ?env) ! 2 = ''''"
    by (rule r) simp_all
  moreover have "m_uncuratedReposModel (GemRepoAddDialog_new ?env) ! 3 = ''''"
    by (rule r) simp_all
  ultimately show ?thesis
    using opened len by blast
qed

subsection \<open>Cache files that cannot be used\<close>

text \<open>
  C2. Whatever is wrong with a cache file (it is missing, it cannot be read, its text is
  not valid JSON, or the JSON has no array member of the expected name), the
  constructor returns a dialog, and the list of that file is empty: the four kinds are
  treated alike.
\<close>

theorem GemRepoAddDialog_new_tolerates_errors:
  "(curatedFile env = FileMissing
    \<or> curatedFile env = FileUnreadable
    \<or> (\<exists>jsonData. curatedFile env = FileContents jsonData
          \<and> fromJson env jsonData = NullDocument)
    \<or> (\<exists>jsonData. curatedFile env = FileContents jsonData
          \<and> \<not> (contains (object (fromJson env jsonData)) ''curated''
                \<and> isArray (value_at (object (fromJson env jsonData)) ''curated'')))
    \<longrightarrow> m_curatedReposModel (GemRepoAddDialog_new env) = [])
   \<and> (uncuratedFile env = FileMissing
    \<or> uncuratedFile env = FileUnreadable
    \<or> (\<exists>jsonData. uncuratedFile env = FileContents jsonData
          \<and> fromJson env jsonData = NullDocument)
    \<or> (\<exists>jsonData. uncuratedFile env = FileContents jsonData
          \<and> \<not> (contains (object (fromJson env jsonData)) ''uncurated''
                \<and> isArray (value_at (object (fromJson env jsonData)) ''uncurated'')))
    \<longrightarrow> m_uncuratedReposModel (GemRepoAddDialog_new env) = [])"
proof (intro conjI impI)
  assume "curatedFile env = FileMissing
    \<or> curatedFile env = FileUnreadable
    \<or> (\<exists>jsonData. curatedFile env = FileContents jsonData
          \<and> fromJson env jsonData = NullDocument)
    \<or> (\<exists>jsonData. curatedFile env = FileContents jsonData
          \<and> \<not> (contains (object (fromJson env jsonData)) ''curated''
                \<and> isArray (value_at (object (fromJson env jsonData)) ''curated'')))"
  then show "m_curatedReposModel (GemRepoAddDialog_new env) = []"
    by (auto simp: curatedReposModel_new contains_def)
next
  assume "uncuratedFile env = FileMissing
    \<or> uncuratedFile env = FileUnreadable
    \<or> (\<exists>jsonData. uncuratedFile env = FileContents jsonData
          \<and> fromJson env jsonData = NullDocument)
    \<or> (\<exists>jsonData. uncuratedFile env = FileContents jsonData
          \<and> \<not> (contains (object (fromJson env jsonData)) ''uncurated''
                \<and> isArray (value_at (object (fromJson env jsonData)) ''uncurated'')))"
  then show "m_uncuratedReposModel (GemRepoAddDialog_new env) = []"
    by (auto simp: uncuratedReposModel_new contains_def)
qed

text \<open>
  One curated file of each kind: missing, unreadable, cut off in the middle (not JSON),
  and, for the missing array, a top-level array, an object without the member, and the
  spec's \<open>{"curated": "not-an-array"}\<close>. Each leaves the curated list empty, while
  the uncurated list is still read from its own file.
\<close>

theorem GemRepoAddDialog_new_tolerates_errors_witness:
  \<open>m_curatedReposModel (GemRepoAddDialog_new (exampleEnvironment FileMissing
       (FileContents ''{"uncurated": ["u", 1, {}, null]}''))) = []
   \<and> m_uncuratedReposModel (GemRepoAddDialog_new (exampleEnvironment FileMissing
       (FileContents ''{"uncurated": ["u", 1, {}, null]}''))) = [''u'', '''', '''', '''']
   \<and> m_curatedReposModel (GemRepoAddDialog_new (exampleEnvironment FileUnreadable
       FileMissing)) = []
   \<and> m_curatedReposModel (GemRepoAddDialog_new (exampleEnvironment
       (FileContents ''{"curated": ["a",'') FileMissing)) = []
   \<and> m_curatedReposModel (GemRepoAddDialog_new (exampleEnvironment
       (FileContents ''["a","b"]'') FileMissing)) = []
   \<and> m_curatedReposModel (GemRepoAddDialog_new (exampleEnvironment
       (FileContents ''{"repos": ["a"]}'') FileMissing)) = []
   \<and> m_curatedReposModel (GemRepoAddDialog_new (exampleEnvironment
       (FileContents ''{"curated": "not-an-array"}'') FileMissing)) = []\<close>
proof -
  let ?u = \<open>FileContents ''{"uncurated": ["u", 1, {}, null]}''\<close>
  have missing: "m_curatedReposModel (GemRepoAddDialog_new
      (exampleEnvironment FileMissing ?u)) = []"
    using GemRepoAddDialog_new_tolerates_errors [of "exampleEnvironment FileMissing ?u"]
    by (simp add: exampleEnvironment_files)
  have other: "m_uncuratedReposModel (GemRepoAddDialog_new
      (exampleEnvironment FileMissing ?u)) = [''u'', '''', '''', '''']"
    by (simp add: uncuratedReposModel_new exampleEnvironment_files exampleParser_def
        contains_def value_at_def)
  have unreadable: "m_curatedReposModel (GemRepoAddDialog_new
      (exampleEnvironment FileUnreadable FileMissing)) = []"
    using GemRepoAddDialog_new_tolerates_errors
      [of "exampleEnvironment FileUnreadable FileMissing"]
    by (simp add: exampleEnvironment_files)
  have malformed: \<open>m_curatedReposModel (GemRepoAddDialog_new
      (exampleEnvironment (FileContents ''{"curated": ["a",'') FileMissing)) = []\<close>
    using GemRepoAddDialog_new_tolerates_errors
      [of \<open>exampleEnvironment (FileContents ''{"curated": ["a",'') FileMissing\<close>]
    by (simp add: exampleEnvironment_files exampleParser_def)
  have top_array: \<open>m_curatedReposModel (GemRepoAddDialog_new
      (exampleEnvironment (FileContents ''["a","b"]'') FileMissing)) = []\<close>
    using GemRepoAddDialog_new_tolerates_errors
      [of \<open>exampleEnvironment (FileContents ''["a","b"]'') FileMissing\<close>]
    by (simp add: exampleEnvironment_files exampleParser_def contains_def)
  have no_member: \<open>m_curatedReposModel (GemRepoAddDialog_new
      (exampleEnvironment (FileContents ''{"repos": ["a"]}'') FileMissing)) = []\<close>
    using GemRepoAddDialog_new_tolerates_errors
      [of \<open>exampleEnvironment (FileContents ''{"repos": ["a"]}'') FileMissing\<close>]
    by (simp add: exampleEnvironment_files exampleParser_def contains_def)
  have no_array: \<open>m_curatedReposModel (GemRepoAddDialog_new
      (exampleEnvironment (FileContents ''{"curated": "not-an-array"}'') FileMissing)) = []\<close>
    using GemRepoAddDialog_new_tolerates_errors
      [of \<open>exampleEnvironment (FileContents ''{"curated": "not-an-array"}'') FileMissing\<close>]
    by (simp add: exampleEnvironment_files exampleParser_def contains_def value_at_def)
  show ?thesis
    using missing other unreadable malformed top_array no_member no_array by blast
qed

subsection \<open>Selecting a repository and reading the path\<close>

lemma press_curated_new_row:
  assumes "row < length (m_curatedReposModel d)"
    and "selectedRows (m_curatedRepos d) \<noteq> [row]"
  shows "press_curated row d =
           d\<lparr>m_curatedRepos := \<lparr>currentIndex = Some row, selectedRows = [row]\<rparr>,
             m_repoPath := m_curatedReposModel d ! row\<rparr>"
  using assms
  by (simp add: press_curated_def select_curated_def curated_selectionChanged_def
      setCurrentIndex_def displayText_def Let_def)

lemma press_uncurated_new_row:
  assumes "row < length (m_uncuratedReposModel d)"
    and "selectedRows (m_uncuratedRepos d) \<noteq> [row]"
  shows "press_uncurated row d =
           d\<lparr>m_uncuratedRepos := \<lparr>currentIndex = Some row, selectedRows = [row]\<rparr>,
             m_repoPath := m_uncuratedReposModel d ! row\<rparr>"
  using assms
  by (simp add: press_uncurated_def select_uncurated_def uncurated_selectionChanged_def
      setCurrentIndex_def displayText_def Let_def)

text \<open>
  Pressing the row that already is the selection of its list: no signal, so the path
  field keeps its text.
\<close>

lemma press_selected_row:
  "selectedRows (m_curatedRepos d) = [row] \<Longrightarrow>
     m_repoPath (press_curated row d) = m_repoPath d"
  "selectedRows (m_uncuratedRepos d) = [row] \<Longrightarrow>
     m_repoPath (press_uncurated row d) = m_repoPath d"
  by (simp_all add: press_curated_def select_curated_def press_uncurated_def
      select_uncurated_def setCurrentIndex_def)

text \<open>No press in one list touches the view of the other list.\<close>

lemma press_other_view:
  "m_uncuratedRepos (press_curated row d) = m_uncuratedRepos d"
  "m_curatedRepos (press_uncurated row d) = m_curatedRepos d"
  by (simp_all add: press_curated_def select_curated_def press_uncurated_def
      select_uncurated_def curated_selectionChanged_def uncurated_selectionChanged_def
      Let_def)

lemma exampleDialog_eq:
  "exampleDialog =
     \<lparr> m_repoPath = '''',
       m_curatedRepos = \<lparr> currentIndex = None, selectedRows = [] \<rparr>,
       m_curatedReposModel = [''a'', ''b''],
       m_uncuratedRepos = \<lparr> currentIndex = None, selectedRows = [] \<rparr>,
       m_uncuratedReposModel = [''u'', '''', '''', ''''] \<rparr>"
  by (simp add: exampleDialog_def GemRepoAddDialog_new_def exampleEnvironment_def
      exampleCacheFile_def exampleParser_def contains_def value_at_def appendRow_def)

text \<open>
  C3, as the spec states it: selecting an entry sets the path field to the entry's
  text, overwriting whatever the field held. This fails for the entry that is already
  the selected row of its list. On the dialog of the two example files: "b" is pressed,
  the user types "zz" over it, and "b" is pressed again. The selection does not change,
  \<open>selectionChanged\<close> is not emitted, and the field still reads "zz", not "b".
\<close>

theorem reselect_keeps_typed_text:
  "1 < length (m_curatedReposModel (editText ''zz'' (press_curated 1 exampleDialog)))
   \<and> m_curatedReposModel (editText ''zz'' (press_curated 1 exampleDialog)) ! 1 = ''b''
   \<and> m_repoPath (press_curated 1 exampleDialog) = ''b''
   \<and> m_repoPath (press_curated 1 (editText ''zz'' (press_curated 1 exampleDialog))) = ''zz''
   \<and> m_repoPath (press_curated 1 (editText ''zz'' (press_curated 1 exampleDialog)))
       \<noteq> m_curatedReposModel (editText ''zz'' (press_curated 1 exampleDialog)) ! 1"
proof -
  have pressed: "press_curated 1 exampleDialog =
      exampleDialog\<lparr>m_curatedRepos := \<lparr>currentIndex = Some 1, selectedRows = [1]\<rparr>,
                    m_repoPath := ''b''\<rparr>"
    by (simp add: press_curated_new_row exampleDialog_eq)
  let ?d = "editText ''zz'' (press_curated 1 exampleDialog)"
  have typed: "m_repoPath ?d = ''zz''"
    and rows: "m_curatedReposModel ?d = [''a'', ''b'']"
    and selected: "selectedRows (m_curatedRepos ?d) = [1]"
    unfolding pressed by (simp_all add: editText_def exampleDialog_eq)
  have again: "m_repoPath (press_curated 1 ?d) = ''zz''"
    using press_selected_row(1) [OF selected] typed by simp
  have first: "m_repoPath (press_curated 1 exampleDialog) = ''b''"
    unfolding pressed by simp
  show ?thesis
    unfolding again rows using first by simp
qed

text \<open>
  C3, amended. For every entry of either list that is not already the selected row of
  its list, selecting it (the view makes it current and selects it) sets the text of
  the path field to the entry's display text, whatever the field held before, and the
  entry becomes the selected row of its list. A selection in one list leaves the other
  list's current index and selection as they were.
\<close>

theorem press_sets_repo_path:
  "(row < length (m_curatedReposModel d) \<and> selectedRows (m_curatedRepos d) \<noteq> [row] \<longrightarrow>
      m_repoPath (press_curated row d) = m_curatedReposModel d ! row
      \<and> selectedRows (m_curatedRepos (press_curated row d)) = [row])
   \<and> m_uncuratedRepos (press_curated row d) = m_uncuratedRepos d
   \<and> (row' < length (m_uncuratedReposModel d) \<and> selectedRows (m_uncuratedRepos d) \<noteq> [row'] \<longrightarrow>
      m_repoPath (press_uncurated row' d) = m_uncuratedReposModel d ! row'
      \<and> selectedRows (m_uncuratedRepos (press_uncurated row' d)) = [row'])
   \<and> m_curatedRepos (press_uncurated row' d) = m_curatedRepos d"
  by (simp add: press_curated_new_row press_uncurated_new_row press_other_view)

text \<open>
  The spec's example on the dialog of the two example files: with "a" in the field,
  selecting the curated entry "b" sets the field to "b"; selecting the uncurated entry
  "u" afterwards sets it to "u" and leaves "b" selected in the curated list.
\<close>

theorem press_sets_repo_path_witness:
  "m_repoPath (editText ''a'' exampleDialog) = ''a''
   \<and> m_curatedReposModel exampleDialog ! 1 = ''b''
   \<and> m_repoPath (press_curated 1 (editText ''a'' exampleDialog)) = ''b''
   \<and> m_repoPath (press_uncurated 0 (press_curated 1 (editText ''a'' exampleDialog))) = ''u''
   \<and> selectedRows (m_curatedRepos
         (press_uncurated 0 (press_curated 1 (editText ''a'' exampleDialog)))) = [1]"
proof -
  let ?d = "editText ''a'' exampleDialog"
  have models: "m_curatedReposModel ?d = [''a'', ''b'']"
    "m_uncuratedReposModel ?d = [''u'', '''', '''', '''']"
    "m_repoPath ?d = ''a''"
    "m_curatedReposModel exampleDialog ! 1 = ''b''"
    "selectedRows (m_curatedRepos ?d) = []"
    "selectedRows (m_uncuratedRepos ?d) = []"
    by (simp_all add: editText_def exampleDialog_eq)
  from press_sets_repo_path [of 1 ?d 0]
  have first: "m_repoPath (press_curated 1 ?d) = ''b''"
    and selected: "selectedRows (m_curatedRepos (press_curated 1 ?d)) = [1]"
    and other: "m_uncuratedRepos (press_curated 1 ?d) = m_uncuratedRepos ?d"
    by (simp_all add: models)
  have models': "m_uncuratedReposModel (press_curated 1 ?d) = [''u'', '''', '''', '''']"
    by (simp add: press_curated_new_row models)
  have entry: "0 < length (m_uncuratedReposModel (press_curated 1 ?d))"
    and shown: "m_uncuratedReposModel (press_curated 1 ?d) ! 0 = ''u''"
    unfolding models' by simp_all
  have fresh: "selectedRows (m_uncuratedRepos (press_curated 1 ?d)) \<noteq> [0]"
    unfolding other by (simp add: models)
  from press_sets_repo_path [of 0 "press_curated 1 ?d" 0] entry fresh
  have "m_repoPath (press_uncurated 0 (press_curated 1 ?d)) =
          m_uncuratedReposModel (press_curated 1 ?d) ! 0
      \<and> m_curatedRepos (press_uncurated 0 (press_curated 1 ?d)) =
          m_curatedRepos (press_curated 1 ?d)"
    by blast
  then have second: "m_repoPath (press_uncurated 0 (press_curated 1 ?d)) = ''u''"
    and kept: "m_curatedRepos (press_uncurated 0 (press_curated 1 ?d)) =
                 m_curatedRepos (press_curated 1 ?d)"
    unfolding shown by blast+
  show ?thesis
    unfolding kept using models first second selected by blast
qed

text \<open>
  C8. Whatever text the path field holds, \<open>GetRepoPath\<close> returns exactly that text: it
  does not trim, normalize or validate.
\<close>

theorem GetRepoPath_verbatim:
  "GetRepoPath d = m_repoPath d \<and> GetRepoPath (editText text d) = text"
  by (simp add: GetRepoPath_def editText_def)

text \<open>Blanks around the path and a path that names nothing come back unchanged.\<close>

theorem GetRepoPath_verbatim_witness:
  "GetRepoPath (editText ''  C:/Gems/../no such repo  '' exampleDialog)
     = ''  C:/Gems/../no such repo  ''
   \<and> GetRepoPath exampleDialog = ''''"
  using GetRepoPath_verbatim [of exampleDialog "''  C:/Gems/../no such repo  ''"]
  by (simp add: exampleDialog_eq)

end
